theory Spec2Isabelle
  imports Main "HOL-Library.AList"
begin

section \<open>Shared data\<close>

text \<open>
  Python exceptions that the modelled code raises or lets through. \<open>Exception\<close> stands
  for any exception of an external library (chromadb, the converter back ends, the
  chunkers and embedders) and for the generic \<open>Exception\<close> that
  \<open>batch_insert_documents\<close> raises itself; \<open>OSError\<close> is a file that cannot be opened.
\<close>

datatype pyerror =
    KeyError string
  | ValueError string
  | OSError string
  | Exception string

type_synonym cid = string

section \<open>The converter registry (src/core/converter.py)\<close>

text \<open>
  \<open>ConverterFunc\<close>: a function from the input path to the converted text. The three
  registered functions call external libraries and may raise, so they are parameters of
  the model with a result that is the text or the exception.
\<close>

type_synonym converter_func = "string \<Rightarrow> pyerror + string"

text \<open>The dictionary \<open>conversion_methods\<close> that \<open>convert\<close> builds on every call.\<close>

definition conversion_methods ::
  "converter_func \<Rightarrow> converter_func \<Rightarrow> converter_func \<Rightarrow> (string \<times> converter_func) list" where
  "conversion_methods marker openai markitdown =
     [(''marker'', marker), (''openai'', openai), (''markitdown'', markitdown)]"

text \<open>
  \<open>convert\<close>: \<open>return conversion_methods[conversion_type](input_path)\<close>. A subscript
  with a key that the dictionary does not hold raises \<open>KeyError\<close> with that key.
\<close>

definition convert ::
  "converter_func \<Rightarrow> converter_func \<Rightarrow> converter_func \<Rightarrow> string \<Rightarrow> string \<Rightarrow> pyerror + string" where
  "convert marker openai markitdown conversion_type input_path =
     (case map_of (conversion_methods marker openai markitdown) conversion_type of
        None \<Rightarrow> Inl (KeyError conversion_type)
      | Some f \<Rightarrow> f input_path)"

section \<open>The vector database manager (src/db/chroma_client.py)\<close>

text \<open>
  One stored row of a collection: the document text (the \<open>content_cid\<close> of the
  metadata), the embedding, the id and the metadata dictionary. The embedding type is
  left open.
\<close>

type_synonym 'e row = "string \<times> 'e \<times> string \<times> (string \<times> string) list"

text \<open>
  \<open>VectorDatabaseManager\<close>: the configured names and the client's collections by name.
\<close>

record 'e vector_database_manager =
  db_names :: "string list"
  db_client :: "(string \<times> 'e row list) list"

text \<open>
  \<open>collection.add\<close> belongs to chromadb: it is a parameter that maps the rows held and
  the rows to add to the new rows or to an exception.
\<close>

type_synonym 'e collection_add = "'e row list \<Rightarrow> 'e row list \<Rightarrow> pyerror + 'e row list"

definition quoted :: "string \<Rightarrow> string" where
  "quoted s = [CHR 0x27] @ s @ [CHR 0x27]"

fun zip_rows :: "string list \<Rightarrow> 'e list \<Rightarrow> string list \<Rightarrow> (string \<times> string) list list \<Rightarrow> 'e row list" where
  "zip_rows (d # ds) (e # es) (i # is) (m # ms) = (d, e, i, m) # zip_rows ds es is ms"
| "zip_rows _ _ _ _ = []"

text \<open>
  \<open>batch_insert_documents\<close>. The result is the exception raised (or \<open>None\<close> for a
  normal return) together with the manager after the call, so that what a raising call
  leaves behind can be stated. The checks come in the order of the source: the name, the
  three lengths (\<open>len(embeddings) == len(metadatas) == len(doc_ids)\<close>), the empty list;
  then the list comprehension over \<open>metadata["content_cid"]\<close>, \<open>get_collection\<close> and
  \<open>collection.add\<close>, whose exception is wrapped in a new \<open>Exception\<close>.
\<close>

definition batch_insert_documents ::
  "'e collection_add \<Rightarrow> string \<Rightarrow> 'e list \<Rightarrow> (string \<times> string) list list \<Rightarrow> string list \<Rightarrow>
   'e vector_database_manager \<Rightarrow> pyerror option \<times> 'e vector_database_manager" where
  "batch_insert_documents add db_name embeddings metadatas doc_ids self =
     (if db_name \<notin> set (db_names self) then
        (Some (ValueError (''Database '' @ quoted db_name @ '' does not exist.'')), self)
      else if \<not> (length embeddings = length metadatas \<and> length metadatas = length doc_ids) then
        (Some (ValueError ''All input lists must have the same length.''), self)
      else if embeddings = [] then (None, self)
      else
        (case those (map (\<lambda>metadata. map_of metadata ''content_cid'') metadatas) of
           None \<Rightarrow> (Some (KeyError ''content_cid''), self)
         | Some documents \<Rightarrow>
             (case map_of (db_client self) db_name of
                None \<Rightarrow> (Some (Exception ''get_collection''), self)
              | Some collection \<Rightarrow>
                  (case add collection (zip_rows documents embeddings doc_ids metadatas) of
                     Inl e \<Rightarrow>
                       (Some (Exception (''Error batch inserting documents into database ''
                                         @ quoted db_name)), self)
                   | Inr collection' \<Rightarrow>
                       (None, self\<lparr>db_client := AList.update db_name collection' (db_client self)\<rparr>)))))"

section \<open>The document processor (descidb/core/processor.py)\<close>

subsection \<open>The world the processor acts on\<close>

text \<open>
  A mapping ledger is a JSON object from a document CID to an array of database
  combinations; \<open>json.load\<close> gives a dictionary in the order of the file, and
  \<open>json.dump\<close> writes it back in that order, so the dictionary is an association list.
  A ledger file is missing, or present but not readable as JSON, or holds a dictionary
  (each key once). A path is the list of its components.
\<close>

type_synonym mappings = "(cid \<times> string list) list"

datatype ledger_file = Missing | Unreadable | Json mappings

type_synonym path = "string list"

text \<open>
  Every call that leaves the process is recorded, in order, with what came back: an
  upload (the object and the CID string returned, empty on failure), a graph write (and
  whether it went through), a call of a converter, chunker or embedder, and a write of a
  ledger file (the dictionary written and whether the write went through).
\<close>

datatype event =
    UploadCall string cid
  | AddNodeCall cid bool
  | RelationshipCall cid cid string bool
  | ConvertCall string string
  | ChunkCall string string
  | EmbedCall string string
  | WriteCall path mappings bool

text \<open>
  What the outside world answers. Each answer may depend on the moment of the call, which
  is the number of calls recorded so far.
  \<^item> \<open>upload_result\<close>: the string that \<open>__lighthouse_and_commit\<close> returns for an object;
    the empty string when the upload, the pointer file or the git commit raised.
  \<^item> \<open>graph_write_ok\<close>: whether a write to the graph database goes through.
  \<^item> \<open>ipfs_content\<close>: what \<open>_query_ipfs_content\<close> returns for a CID.
  \<^item> \<open>file_write_ok\<close>: whether \<open>__write_mappings\<close> goes through: the directory is
    created, the file opened for writing and the dictionary dumped.
  \<^item> \<open>file_write_truncates\<close>: for a write that does not go through, whether it raised
    after \<open>open(path, "w")\<close> had emptied the file (in \<open>json.dump\<close> or on closing) rather
    than before (in \<open>os.makedirs\<close> or in \<open>open\<close> itself).
  \<^item> \<open>metadata_file_ok\<close>: whether the metadata file can be opened.
  \<^item> \<open>convert_call\<close>, \<open>chunk_call\<close>, \<open>embed_call\<close>: the functions \<open>convert\<close>, \<open>chunk\<close>
    and \<open>embed\<close> that the processor imports, by type name and input; \<open>embed_call\<close>
    gives the embedding as serialised by \<open>json.dumps\<close>.
\<close>

record env =
  upload_result :: "nat \<Rightarrow> string \<Rightarrow> cid"
  graph_write_ok :: "nat \<Rightarrow> bool"
  ipfs_content :: "nat \<Rightarrow> cid \<Rightarrow> string option"
  file_write_ok :: "nat \<Rightarrow> path \<Rightarrow> bool"
  file_write_truncates :: "nat \<Rightarrow> path \<Rightarrow> bool"
  metadata_file_ok :: bool
  convert_call :: "nat \<Rightarrow> string \<Rightarrow> string \<Rightarrow> pyerror + string"
  chunk_call :: "nat \<Rightarrow> string \<Rightarrow> string \<Rightarrow> pyerror + string list"
  embed_call :: "nat \<Rightarrow> string \<Rightarrow> string \<Rightarrow> pyerror + string"

text \<open>
  The fields of a \<open>Processor\<close> that \<open>__init__\<close> fixes. \<open>user_email\<close> is taken to be
  one path component (a non-empty name without a separator), so that
  \<open>temp_dir / user_email\<close> is \<open>temp_dir\<close> with one more component.
\<close>

record processor =
  temp_dir :: path
  user_email :: string
  author_cid :: cid

text \<open>
  What changes: the two caches of the \<open>Processor\<close> object, the nodes and edges of the
  graph database, the ledger files, and the record of calls.
\<close>

record pstate =
  convert_cache :: "(string \<times> string) list"
  chunk_cache :: "(string \<times> string list) list"
  graph_nodes :: "cid list"
  graph_edges :: "(cid \<times> cid \<times> string) list"
  files :: "path \<Rightarrow> ledger_file"
  trace :: "event list"

record db_config =
  converter :: string
  chunker :: string
  embedder :: string

definition user_temp_dir :: "processor \<Rightarrow> path" where
  "user_temp_dir P = temp_dir P @ [user_email P]"

definition global_mappings_path :: "processor \<Rightarrow> path" where
  "global_mappings_path P = temp_dir P @ [''mappings.json'']"

definition user_mappings_path :: "processor \<Rightarrow> path" where
  "user_mappings_path P = user_temp_dir P @ [''mappings.json'']"

text \<open>Python's truth value of an optional string: \<open>None\<close> and the empty string are false.\<close>

definition truthy :: "string option \<Rightarrow> bool" where
  "truthy x = (case x of None \<Rightarrow> False | Some v \<Rightarrow> v \<noteq> [])"

subsection \<open>Uploads\<close>

text \<open>
  \<open>__lighthouse_and_commit\<close>: upload, pointer file, git add and commit inside one
  \<open>try\<close>; any exception is logged and the empty string returned. For a text the source
  first writes it to the temporary file and uploads that file; the object is then the
  text.
\<close>

definition lighthouse_and_commit :: "env \<Rightarrow> string \<Rightarrow> pstate \<Rightarrow> cid \<times> pstate" where
  "lighthouse_and_commit E object s =
     (let ipfs_cid = upload_result E (length (trace s)) object
      in (ipfs_cid, s\<lparr>trace := trace s @ [UploadCall object ipfs_cid]\<rparr>))"

subsection \<open>The graph database\<close>

text \<open>
  Modelled from the spec: the class \<open>IPFSNeo4jGraph\<close> (descidb/db/graph_db.py) is not
  among the sources. \<open>addNode(cid)\<close> is idempotent; a failing write is logged and changes
  nothing.
\<close>

definition add_ipfs_node :: "env \<Rightarrow> cid \<Rightarrow> pstate \<Rightarrow> pstate" where
  "add_ipfs_node E c s =
     (let ok = graph_write_ok E (length (trace s))
      in s\<lparr>graph_nodes := (if ok \<and> c \<notin> set (graph_nodes s) then graph_nodes s @ [c]
                             else graph_nodes s),
           trace := trace s @ [AddNodeCall c ok]\<rparr>)"

text \<open>
  Modelled from the spec: \<open>addEdge(from, to, relation)\<close> of the missing class
  \<open>IPFSNeo4jGraph\<close> is idempotent; a failing write is logged and changes nothing.
\<close>

definition create_relationship :: "env \<Rightarrow> cid \<Rightarrow> cid \<Rightarrow> string \<Rightarrow> pstate \<Rightarrow> pstate" where
  "create_relationship E a b rel s =
     (let ok = graph_write_ok E (length (trace s))
      in s\<lparr>graph_edges := (if ok \<and> (a, b, rel) \<notin> set (graph_edges s)
                             then graph_edges s @ [(a, b, rel)] else graph_edges s),
           trace := trace s @ [RelationshipCall a b rel ok]\<rparr>)"

text \<open>
  Modelled from the spec: \<open>findEdgeTarget(from, relation)\<close> of the missing class
  \<open>IPFSNeo4jGraph\<close>, as \<open>get_converted_markdown_cid\<close> uses it: the target of an edge
  \<open>CONVERTED_BY_<converter>\<close> that leaves the document CID, if there is one.
\<close>

definition get_converted_markdown_cid :: "pstate \<Rightarrow> cid \<Rightarrow> string \<Rightarrow> cid option" where
  "get_converted_markdown_cid s pdf_cid converter_func =
     map_option (\<lambda>(a, b, rel). b)
       (find (\<lambda>(a, b, rel). a = pdf_cid \<and> rel = ''CONVERTED_BY_'' @ converter_func)
          (graph_edges s))"

text \<open>
  Modelled from the spec: \<open>fetchContent(cid)\<close> of the missing class \<open>IPFSNeo4jGraph\<close>
  (\<open>_query_ipfs_content\<close>) returns the content, or nothing on a miss.
\<close>

definition query_ipfs_content :: "env \<Rightarrow> cid \<Rightarrow> pstate \<Rightarrow> string option" where
  "query_ipfs_content E c s = ipfs_content E (length (trace s)) c"

subsection \<open>The mapping ledgers\<close>

text \<open>
  \<open>__read_mappings\<close>: the dictionary of the file when the file exists and loads; the
  empty dictionary when it does not exist, and also when opening or parsing raised (the
  exception is logged).
\<close>

definition read_mappings :: "pstate \<Rightarrow> path \<Rightarrow> mappings" where
  "read_mappings s mapping_file_path =
     (case files s mapping_file_path of
        Missing \<Rightarrow> []
      | Unreadable \<Rightarrow> []
      | Json m \<Rightarrow> m)"

text \<open>
  \<open>__write_mappings\<close>: creates the directory, opens the file with mode \<open>"w"\<close> and dumps the
  dictionary, all in one \<open>try\<close>; an exception is logged and not raised again. The file
  afterwards holds the dictionary when the write went through. When it raised before the
  file was opened, the file is as it was. When it raised after \<open>open\<close> had emptied the
  file, the file is empty or holds the beginning of the dump, which \<open>__read_mappings\<close>
  cannot parse.
\<close>

definition write_mappings :: "env \<Rightarrow> mappings \<Rightarrow> path \<Rightarrow> pstate \<Rightarrow> pstate" where
  "write_mappings E m mapping_file_path s =
     (let ok = file_write_ok E (length (trace s)) mapping_file_path;
          truncated = file_write_truncates E (length (trace s)) mapping_file_path
      in s\<lparr>files := (if ok then (files s)(mapping_file_path := Json m)
                      else if truncated then (files s)(mapping_file_path := Unreadable)
                      else files s),
           trace := trace s @ [WriteCall mapping_file_path m ok]\<rparr>)"

text \<open>
  The test of \<open>process\<close> on the global ledger:
  \<open>pdf_cid in mappings and db_combination in mappings[pdf_cid]\<close>.
\<close>

definition is_complete :: "mappings \<Rightarrow> cid \<Rightarrow> string \<Rightarrow> bool" where
  "is_complete m pdf_cid db_combination =
     (case map_of m pdf_cid of None \<Rightarrow> False | Some vs \<Rightarrow> db_combination \<in> set vs)"

text \<open>The set of combinations that a dictionary records for a document CID.\<close>

definition completed :: "mappings \<Rightarrow> cid \<Rightarrow> string set" where
  "completed m pdf_cid = (case map_of m pdf_cid of None \<Rightarrow> {} | Some vs \<Rightarrow> set vs)"

text \<open>
  The two \<open>if\<close> statements of \<open>__update_mappings\<close> on a dictionary:
  \<open>if pdf_cid not in m: m[pdf_cid] = []\<close> and
  \<open>if db_combination not in m[pdf_cid]: m[pdf_cid].append(db_combination)\<close>.
\<close>

definition add_combination :: "cid \<Rightarrow> string \<Rightarrow> mappings \<Rightarrow> mappings" where
  "add_combination pdf_cid db_combination m =
     (let m1 = (case map_of m pdf_cid of None \<Rightarrow> AList.update pdf_cid [] m | Some _ \<Rightarrow> m)
      in case map_of m1 pdf_cid of
           None \<Rightarrow> m1
         | Some vs \<Rightarrow>
             if db_combination \<notin> set vs then AList.update pdf_cid (vs @ [db_combination]) m1
             else m1)"

text \<open>
  \<open>__update_mappings\<close>: read, change and write the global file, then read, change and
  write the user's file.
\<close>

definition update_mappings :: "env \<Rightarrow> processor \<Rightarrow> cid \<Rightarrow> string \<Rightarrow> pstate \<Rightarrow> pstate" where
  "update_mappings E P pdf_cid db_combination s =
     (let global_mappings = add_combination pdf_cid db_combination
                              (read_mappings s (global_mappings_path P));
          s1 = write_mappings E global_mappings (global_mappings_path P) s;
          user_mappings = add_combination pdf_cid db_combination
                            (read_mappings s1 (user_mappings_path P))
      in write_mappings E user_mappings (user_mappings_path P) s1)"

subsection \<open>One database configuration\<close>

definition db_combination_of :: "db_config \<Rightarrow> string" where
  "db_combination_of c = converter c @ ''_'' @ chunker c @ ''_'' @ embedder c"

definition chunk_cache_key :: "string \<Rightarrow> string \<Rightarrow> string" where
  "chunk_cache_key converter_func chunker_func = converter_func @ ''_'' @ chunker_func"

text \<open>
  Step 2.1, first half: ask the graph for an existing conversion and fetch its content.
  A content that comes back seeds the convert cache; otherwise the CID is reset to
  \<open>None\<close>.
\<close>

definition existing_conversion :: "env \<Rightarrow> cid \<Rightarrow> string \<Rightarrow> pstate \<Rightarrow> cid option \<times> pstate" where
  "existing_conversion E pdf_cid converter_func s =
     (case get_converted_markdown_cid s pdf_cid converter_func of
        None \<Rightarrow> (None, s)
      | Some converted_text_ipfs_cid \<Rightarrow>
          if converted_text_ipfs_cid \<noteq> [] then
            (case query_ipfs_content E converted_text_ipfs_cid s of
               None \<Rightarrow> (None, s)
             | Some converted_text \<Rightarrow>
                 if converted_text \<noteq> [] then
                   (Some converted_text_ipfs_cid,
                    s\<lparr>convert_cache :=
                        AList.update converter_func converted_text (convert_cache s)\<rparr>)
                 else (None, s))
          else (Some converted_text_ipfs_cid, s))"

text \<open>
  The inner \<open>if converter_func not in self.convert_cache\<close>: call the converter and cache
  the text, or take the text from the cache.
\<close>

definition converted_text_for ::
  "env \<Rightarrow> string \<Rightarrow> string \<Rightarrow> pstate \<Rightarrow> (pyerror + string) \<times> pstate" where
  "converted_text_for E pdf_path converter_func s =
     (case map_of (convert_cache s) converter_func of
        None \<Rightarrow>
          (case convert_call E (length (trace s)) converter_func pdf_path of
             Inl e \<Rightarrow> (Inl e, s\<lparr>trace := trace s @ [ConvertCall converter_func pdf_path]\<rparr>)
           | Inr converted_text \<Rightarrow>
               (Inr converted_text,
                s\<lparr>convert_cache := AList.update converter_func converted_text (convert_cache s),
                  trace := trace s @ [ConvertCall converter_func pdf_path]\<rparr>))
      | Some converted_text \<Rightarrow> (Inr converted_text, s))"

text \<open>
  The body of the second \<open>if\<close> of step 2.1: get the text, upload it, add the node and
  the two edges. The result is the CID string that the upload returned.
\<close>

definition new_conversion ::
  "env \<Rightarrow> processor \<Rightarrow> string \<Rightarrow> cid \<Rightarrow> string \<Rightarrow> pstate \<Rightarrow> (pyerror + cid) \<times> pstate" where
  "new_conversion E P pdf_path pdf_cid converter_func s =
     (case converted_text_for E pdf_path converter_func s of
        (Inl e, s2) \<Rightarrow> (Inl e, s2)
      | (Inr converted_text, s2) \<Rightarrow>
          (case lighthouse_and_commit E converted_text s2 of
             (converted_text_ipfs_cid, s3) \<Rightarrow>
               (Inr converted_text_ipfs_cid,
                create_relationship E converted_text_ipfs_cid (author_cid P) ''AUTHORED_BY''
                  (create_relationship E pdf_cid converted_text_ipfs_cid
                     (''CONVERTED_BY_'' @ converter_func)
                     (add_ipfs_node E converted_text_ipfs_cid s3)))))"

text \<open>
  Step 2.1 as a whole: after the lookup,
  \<open>if not converted_text_ipfs_cid or converter_func not in self.convert_cache\<close> runs the
  body above; otherwise the CID found in the graph is kept. The result is the CID of the
  converted text that the chunk loop links from.
\<close>

definition conversion_step ::
  "env \<Rightarrow> processor \<Rightarrow> string \<Rightarrow> cid \<Rightarrow> string \<Rightarrow> pstate \<Rightarrow> (pyerror + cid) \<times> pstate" where
  "conversion_step E P pdf_path pdf_cid converter_func s =
     (case existing_conversion E pdf_cid converter_func s of
        (found, s1) \<Rightarrow>
          (case found of
             None \<Rightarrow> new_conversion E P pdf_path pdf_cid converter_func s1
           | Some converted_text_ipfs_cid \<Rightarrow>
               if converted_text_ipfs_cid = [] \<or> map_of (convert_cache s1) converter_func = None
               then new_conversion E P pdf_path pdf_cid converter_func s1
               else (Inr converted_text_ipfs_cid, s1)))"

text \<open>
  Step 2.2: the converted text is read from the convert cache (a missing key would raise
  \<open>KeyError\<close>); the chunks come from the chunk cache under the key
  \<open>f"{converter_func}_{chunker_func}"\<close>, or from the chunker, whose result is cached.
\<close>

definition chunking_step ::
  "env \<Rightarrow> string \<Rightarrow> string \<Rightarrow> pstate \<Rightarrow> (pyerror + string list) \<times> pstate" where
  "chunking_step E converter_func chunker_func s =
     (case map_of (convert_cache s) converter_func of
        None \<Rightarrow> (Inl (KeyError converter_func), s)
      | Some converted_text \<Rightarrow>
          (case map_of (chunk_cache s) (chunk_cache_key converter_func chunker_func) of
             None \<Rightarrow>
               (case chunk_call E (length (trace s)) chunker_func converted_text of
                  Inl e \<Rightarrow> (Inl e, s\<lparr>trace := trace s @ [ChunkCall chunker_func converted_text]\<rparr>)
                | Inr chunked_text \<Rightarrow>
                    (Inr chunked_text,
                     s\<lparr>chunk_cache := AList.update (chunk_cache_key converter_func chunker_func)
                                         chunked_text (chunk_cache s),
                       trace := trace s @ [ChunkCall chunker_func converted_text]\<rparr>))
           | Some chunked_text \<Rightarrow> (Inr chunked_text, s)))"

text \<open>
  The body of the chunk loop up to the call of the embedder: upload the chunk, add its
  node, link it from the converted text and to the author.
\<close>

definition chunk_upload :: "env \<Rightarrow> processor \<Rightarrow> cid \<Rightarrow> string \<Rightarrow> string \<Rightarrow> pstate \<Rightarrow> cid \<times> pstate" where
  "chunk_upload E P converted_text_ipfs_cid chunker_func chunk_i s =
     (case lighthouse_and_commit E chunk_i s of
        (chunk_text_ipfs_cid, s1) \<Rightarrow>
          (chunk_text_ipfs_cid,
           create_relationship E chunk_text_ipfs_cid (author_cid P) ''AUTHORED_BY''
             (create_relationship E converted_text_ipfs_cid chunk_text_ipfs_cid
                (''CHUNKED_BY_'' @ chunker_func)
                (add_ipfs_node E chunk_text_ipfs_cid s1))))"

text \<open>Step 2.3 after the embedder returned: upload the embedding, add its node and edges.\<close>

definition embedding_upload :: "env \<Rightarrow> processor \<Rightarrow> cid \<Rightarrow> string \<Rightarrow> string \<Rightarrow> pstate \<Rightarrow> pstate" where
  "embedding_upload E P chunk_text_ipfs_cid embedder_func embedding s =
     (case lighthouse_and_commit E embedding s of
        (embedding_ipfs_cid, s1) \<Rightarrow>
          create_relationship E embedding_ipfs_cid (author_cid P) ''AUTHORED_BY''
            (create_relationship E chunk_text_ipfs_cid embedding_ipfs_cid
               (''EMBEDDED_BY_'' @ embedder_func)
               (add_ipfs_node E embedding_ipfs_cid s1)))"

text \<open>
  \<open>for _, chunk_i in enumerate(chunked_text)\<close>. An exception of the embedder leaves the
  loop and \<open>process\<close>.
\<close>

fun chunk_loop ::
  "env \<Rightarrow> processor \<Rightarrow> cid \<Rightarrow> string \<Rightarrow> string \<Rightarrow> string list \<Rightarrow> pstate \<Rightarrow> pyerror option \<times> pstate" where
  "chunk_loop E P converted_text_ipfs_cid chunker_func embedder_func [] s = (None, s)"
| "chunk_loop E P converted_text_ipfs_cid chunker_func embedder_func (chunk_i # rest) s =
     (case chunk_upload E P converted_text_ipfs_cid chunker_func chunk_i s of
        (chunk_text_ipfs_cid, s1) \<Rightarrow>
          (case embed_call E (length (trace s1)) embedder_func chunk_i of
             Inl e \<Rightarrow> (Some e, s1\<lparr>trace := trace s1 @ [EmbedCall embedder_func chunk_i]\<rparr>)
           | Inr embedding \<Rightarrow>
               chunk_loop E P converted_text_ipfs_cid chunker_func embedder_func rest
                 (embedding_upload E P chunk_text_ipfs_cid embedder_func embedding
                    (s1\<lparr>trace := trace s1 @ [EmbedCall embedder_func chunk_i]\<rparr>))))"

text \<open>
  The body of \<open>for db_config in databases\<close>: the check of the global ledger, then the
  conversion, the chunking, the chunk loop and \<open>__update_mappings\<close>.
\<close>

definition process_variant ::
  "env \<Rightarrow> processor \<Rightarrow> string \<Rightarrow> cid \<Rightarrow> db_config \<Rightarrow> pstate \<Rightarrow> pyerror option \<times> pstate" where
  "process_variant E P pdf_path pdf_cid c s =
     (if is_complete (read_mappings s (global_mappings_path P)) pdf_cid (db_combination_of c) then
        (None, update_mappings E P pdf_cid (db_combination_of c) s)
      else
        (case conversion_step E P pdf_path pdf_cid (converter c) s of
           (Inl e, s1) \<Rightarrow> (Some e, s1)
         | (Inr converted_text_ipfs_cid, s1) \<Rightarrow>
             (case chunking_step E (converter c) (chunker c) s1 of
                (Inl e, s2) \<Rightarrow> (Some e, s2)
              | (Inr chunked_text, s2) \<Rightarrow>
                  (case chunk_loop E P converted_text_ipfs_cid (chunker c) (embedder c)
                          chunked_text s2 of
                     (Some e, s3) \<Rightarrow> (Some e, s3)
                   | (None, s3) \<Rightarrow>
                       (None, update_mappings E P pdf_cid (db_combination_of c) s3)))))"

fun process_variants ::
  "env \<Rightarrow> processor \<Rightarrow> string \<Rightarrow> cid \<Rightarrow> db_config list \<Rightarrow> pstate \<Rightarrow> pyerror option \<times> pstate" where
  "process_variants E P pdf_path pdf_cid [] s = (None, s)"
| "process_variants E P pdf_path pdf_cid (c # cs) s =
     (case process_variant E P pdf_path pdf_cid c s of
        (Some e, s1) \<Rightarrow> (Some e, s1)
      | (None, s1) \<Rightarrow> process_variants E P pdf_path pdf_cid cs s1)"

subsection \<open>One document\<close>

text \<open>
  \<open>process\<close>: both caches are emptied; the metadata file is opened (the metadata
  themselves reach nothing but log lines); the document is uploaded, and an empty result
  ends the call; otherwise the document node and its \<open>AUTHORED_BY\<close> edge are written and
  the configurations are processed in order.
\<close>

definition process ::
  "env \<Rightarrow> processor \<Rightarrow> string \<Rightarrow> db_config list \<Rightarrow> pstate \<Rightarrow> pyerror option \<times> pstate" where
  "process E P pdf_path databases s0 =
     (let s = s0\<lparr>convert_cache := [], chunk_cache := []\<rparr>
      in if \<not> metadata_file_ok E then (Some (OSError ''metadata_file''), s)
         else
           (case lighthouse_and_commit E pdf_path s of
              (pdf_ipfs_cid, s1) \<Rightarrow>
                if pdf_ipfs_cid = [] then (None, s1)
                else
                  process_variants E P pdf_path pdf_ipfs_cid databases
                    (create_relationship E pdf_ipfs_cid (author_cid P) ''AUTHORED_BY''
                       (add_ipfs_node E pdf_ipfs_cid s1))))"

text \<open>
  A sequence of \<open>process\<close> calls, each by its own processor in its own surroundings; a
  call that raises leaves the state it reached to the next one.
\<close>

fun process_all ::
  "(env \<times> processor \<times> string \<times> db_config list) list \<Rightarrow> pstate \<Rightarrow> pstate" where
  "process_all [] s = s"
| "process_all ((E, P, pdf_path, databases) # calls) s =
     process_all calls (snd (process E P pdf_path databases s))"

section \<open>Example surroundings and states\<close>

definition env_ok :: env where
  "env_ok = \<lparr>upload_result = (\<lambda>t x. ''Qm-'' @ x), graph_write_ok = (\<lambda>t. True),
              ipfs_content = (\<lambda>t c. None), file_write_ok = (\<lambda>t p. True),
              file_write_truncates = (\<lambda>t p. False),
              metadata_file_ok = True,
              convert_call = (\<lambda>t c p. Inr (c @ '' text of '' @ p)),
              chunk_call = (\<lambda>t k x. Inr [k @ '':'' @ x]),
              embed_call = (\<lambda>t e x. Inr ''[0.5]'')\<rparr>"

definition alice :: processor where
  "alice = \<lparr>temp_dir = [''temp''], user_email = ''alice@example.org'', author_cid = ''QmAuthor''\<rparr>"

definition state0 :: pstate where
  "state0 = \<lparr>convert_cache = [], chunk_cache = [], graph_nodes = [''QmAuthor''],
              graph_edges = [], files = (\<lambda>p. Missing), trace = []\<rparr>"

definition variant1 :: db_config where
  "variant1 = \<lparr>converter = ''marker'', chunker = ''paragraph'', embedder = ''bge''\<rparr>"

text \<open>The global ledger already records \<open>variant1\<close> for the document \<open>QmDoc\<close>.\<close>

definition state_done :: pstate where
  "state_done = state0\<lparr>files := (\<lambda>p. Missing)([''temp'', ''mappings.json''] :=
                   Json [(''QmDoc'', [''marker_paragraph_bge''])])\<rparr>"

text \<open>The global ledger already records \<open>variant1\<close> for the document \<open>Qm-doc.pdf\<close>.\<close>

definition state_doc_done :: pstate where
  "state_doc_done = state0\<lparr>files := (\<lambda>p. Missing)([''temp'', ''mappings.json''] :=
                   Json [(''Qm-doc.pdf'', [''marker_paragraph_bge''])])\<rparr>"

text \<open>Surroundings in which only the global ledger file can be written.\<close>

definition env_user_readonly :: env where
  "env_user_readonly = env_ok\<lparr>file_write_ok := (\<lambda>t p. p = [''temp'', ''mappings.json''])\<rparr>"

text \<open>Surroundings in which only the user's ledger file can be written.\<close>

definition env_global_readonly :: env where
  "env_global_readonly = env_ok\<lparr>file_write_ok := (\<lambda>t p. p \<noteq> [''temp'', ''mappings.json''])\<rparr>"

text \<open>
  Surroundings in which every write of a ledger file fails after the file was opened,
  as on a full disk.
\<close>

definition env_disk_full :: env where
  "env_disk_full = env_ok\<lparr>file_write_ok := (\<lambda>t p. False), file_write_truncates := (\<lambda>t p. True)\<rparr>"

text \<open>Surroundings in which every upload fails.\<close>

definition env_upload_down :: env where
  "env_upload_down = env_ok\<lparr>upload_result := (\<lambda>t x. [])\<rparr>"














section \<open>Theorems: converter registry\<close>

text \<open>
  Claim C9. The registry of \<open>convert\<close> is closed: a conversion type other than
  "marker", "openai" and "markitdown" makes \<open>convert\<close> raise \<open>KeyError\<close> (no text, not
  even the empty one, is returned), and each of the three registered names runs its own
  function on the input path.
\<close>

theorem convert_registry_closed:
  "(t \<notin> {''marker'', ''openai'', ''markitdown''} \<longrightarrow>
      convert marker openai markitdown t p = Inl (KeyError t))
   \<and> convert marker openai markitdown ''marker'' p = marker p
   \<and> convert marker openai markitdown ''openai'' p = openai p
   \<and> convert marker openai markitdown ''markitdown'' p = markitdown p"
  by (simp add: convert_def conversion_methods_def)

theorem convert_registry_closed_witness:
  "''pdfminer'' \<notin> {''marker'', ''openai'', ''markitdown''}
   \<and> convert (\<lambda>p. Inr (''M:'' @ p)) (\<lambda>p. Inr (''O:'' @ p)) (\<lambda>p. Inr []) ''pdfminer'' ''a.pdf''
       = Inl (KeyError ''pdfminer'')
   \<and> convert (\<lambda>p. Inr (''M:'' @ p)) (\<lambda>p. Inr (''O:'' @ p)) (\<lambda>p. Inr []) ''openai'' ''a.pdf''
       = Inr ''O:a.pdf''"
  using convert_registry_closed
    [of "''pdfminer''" "\<lambda>p. Inr (''M:'' @ p)" "\<lambda>p. Inr (''O:'' @ p)" "\<lambda>p. Inr []" "''a.pdf''"]
  by simp

section \<open>Theorems: batch insertion\<close>

text \<open>
  Claim C10. \<open>batch_insert_documents\<close> validates before it inserts: an unknown
  database name raises \<open>ValueError\<close>, lists of different lengths raise \<open>ValueError\<close>, an
  empty embeddings list returns at once; in each of the three cases the manager and all
  its collections are what they were before the call.
\<close>

theorem batch_insert_validates:
  "(db_name \<notin> set (db_names self) \<longrightarrow>
      batch_insert_documents add db_name embeddings metadatas doc_ids self
        = (Some (ValueError (''Database '' @ quoted db_name @ '' does not exist.'')), self))
   \<and> (db_name \<in> set (db_names self)
        \<and> \<not> (length embeddings = length metadatas \<and> length metadatas = length doc_ids) \<longrightarrow>
      batch_insert_documents add db_name embeddings metadatas doc_ids self
        = (Some (ValueError ''All input lists must have the same length.''), self))
   \<and> (db_name \<in> set (db_names self) \<and> metadatas = [] \<and> doc_ids = [] \<longrightarrow>
      batch_insert_documents add db_name [] metadatas doc_ids self = (None, self))"
  by (simp add: batch_insert_documents_def)

theorem batch_insert_validates_witness:
  "''nodb'' \<notin> set (db_names \<lparr>db_names = [''db1''], db_client = [(''db1'', [])]\<rparr>)
   \<and> batch_insert_documents (\<lambda>c r. Inr (c @ r)) ''nodb'' [1::int] [[(''content_cid'', ''Qm1'')]] [''id1'']
        \<lparr>db_names = [''db1''], db_client = [(''db1'', [])]\<rparr>
       = (Some (ValueError ''Database 'nodb' does not exist.''),
          \<lparr>db_names = [''db1''], db_client = [(''db1'', [])]\<rparr>)
   \<and> batch_insert_documents (\<lambda>c r. Inr (c @ r)) ''db1'' [1::int, 2] [[(''content_cid'', ''Qm1'')]] [''id1'']
        \<lparr>db_names = [''db1''], db_client = [(''db1'', [])]\<rparr>
       = (Some (ValueError ''All input lists must have the same length.''),
          \<lparr>db_names = [''db1''], db_client = [(''db1'', [])]\<rparr>)
   \<and> batch_insert_documents (\<lambda>c r. Inr (c @ r)) ''db1'' ([]::int list) [] []
        \<lparr>db_names = [''db1''], db_client = [(''db1'', [])]\<rparr>
       = (None, \<lparr>db_names = [''db1''], db_client = [(''db1'', [])]\<rparr>)"
  using batch_insert_validates
    [of "''nodb''" "\<lparr>db_names = [''db1''], db_client = [(''db1'', [])]\<rparr>"
        "\<lambda>c r. Inr (c @ r)" "[1::int]" "[[(''content_cid'', ''Qm1'')]]" "[''id1'']"]
    batch_insert_validates
    [of "''db1''" "\<lparr>db_names = [''db1''], db_client = [(''db1'', [])]\<rparr>"
        "\<lambda>c r. Inr (c @ r)" "[1::int, 2]" "[[(''content_cid'', ''Qm1'')]]" "[''id1'']"]
    batch_insert_validates
    [of "''db1''" "\<lparr>db_names = [''db1''], db_client = [(''db1'', [])]\<rparr>"
        "\<lambda>c r. Inr (c @ r)" "[]::int list" "[]" "[]"]
  by (simp add: quoted_def)

section \<open>Auxiliary facts\<close>

lemma mappings_paths_distinct: "global_mappings_path P \<noteq> user_mappings_path P"
  by (simp add: global_mappings_path_def user_mappings_path_def user_temp_dir_def)

lemma completed_add_combination:
  "completed (add_combination d v m) d' = (if d' = d then insert v (completed m d) else completed m d')"
  by (auto simp: completed_def add_combination_def Let_def update_conv' split: option.splits)

lemma is_complete_completed: "is_complete m d v = (v \<in> completed m d)"
  by (simp add: is_complete_def completed_def split: option.splits)

lemma add_combination_idem:
  "is_complete m d v \<Longrightarrow> add_combination d v m = m"
  by (auto simp: is_complete_def add_combination_def Let_def split: option.splits)

(* frame lemmas *)
lemma lighthouse_and_commit_frame:
  "files (snd (lighthouse_and_commit E x s)) = files s"
  "convert_cache (snd (lighthouse_and_commit E x s)) = convert_cache s"
  "chunk_cache (snd (lighthouse_and_commit E x s)) = chunk_cache s"
  "graph_nodes (snd (lighthouse_and_commit E x s)) = graph_nodes s"
  "graph_edges (snd (lighthouse_and_commit E x s)) = graph_edges s"
  "trace (snd (lighthouse_and_commit E x s)) = trace s @ [UploadCall x (fst (lighthouse_and_commit E x s))]"
  "fst (lighthouse_and_commit E x s) = upload_result E (length (trace s)) x"
  by (simp_all add: lighthouse_and_commit_def Let_def)

lemma add_ipfs_node_frame:
  "files (add_ipfs_node E c s) = files s"
  "convert_cache (add_ipfs_node E c s) = convert_cache s"
  "chunk_cache (add_ipfs_node E c s) = chunk_cache s"
  "trace (add_ipfs_node E c s) = trace s @ [AddNodeCall c (graph_write_ok E (length (trace s)))]"
  by (simp_all add: add_ipfs_node_def Let_def)

lemma create_relationship_frame:
  "files (create_relationship E a b r s) = files s"
  "convert_cache (create_relationship E a b r s) = convert_cache s"
  "chunk_cache (create_relationship E a b r s) = chunk_cache s"
  "trace (create_relationship E a b r s) = trace s @ [RelationshipCall a b r (graph_write_ok E (length (trace s)))]"
  by (simp_all add: create_relationship_def Let_def)

lemma existing_conversion_frame:
  "files (snd (existing_conversion E d c s)) = files s"
  "chunk_cache (snd (existing_conversion E d c s)) = chunk_cache s"
  "graph_nodes (snd (existing_conversion E d c s)) = graph_nodes s"
  "graph_edges (snd (existing_conversion E d c s)) = graph_edges s"
  "trace (snd (existing_conversion E d c s)) = trace s"
  by (simp_all add: existing_conversion_def split: option.splits)

lemma converted_text_for_frame:
  "files (snd (converted_text_for E p c s)) = files s"
  "chunk_cache (snd (converted_text_for E p c s)) = chunk_cache s"
  "graph_nodes (snd (converted_text_for E p c s)) = graph_nodes s"
  "graph_edges (snd (converted_text_for E p c s)) = graph_edges s"
  by (simp_all add: converted_text_for_def split: option.splits sum.splits)

lemma new_conversion_files:
  "files (snd (new_conversion E P p d c s)) = files s"
  by (simp add: new_conversion_def case_prod_unfold lighthouse_and_commit_frame
        create_relationship_frame add_ipfs_node_frame converted_text_for_frame
      split: sum.splits)

lemma conversion_step_files:
  "files (snd (conversion_step E P p d c s)) = files s"
  by (simp add: conversion_step_def case_prod_unfold new_conversion_files
        existing_conversion_frame
      split: option.splits)

lemma chunking_step_files:
  "files (snd (chunking_step E c k s)) = files s"
  by (simp add: chunking_step_def split: option.splits sum.splits)

lemma chunk_upload_files:
  "files (snd (chunk_upload E P cc k x s)) = files s"
  by (simp add: chunk_upload_def case_prod_unfold lighthouse_and_commit_frame
        create_relationship_frame add_ipfs_node_frame)

lemma embedding_upload_files:
  "files (embedding_upload E P cc e x s) = files s"
  by (simp add: embedding_upload_def case_prod_unfold lighthouse_and_commit_frame
        create_relationship_frame add_ipfs_node_frame)

lemma chunk_loop_files:
  "files (snd (chunk_loop E P cc k e xs s)) = files s"
  by (induction xs arbitrary: s)
     (simp_all add: case_prod_unfold chunk_upload_files embedding_upload_files split: sum.splits)

lemma completed_Unreadable: "files s p = Unreadable \<Longrightarrow> completed (read_mappings s p) d = {}"
  by (simp add: read_mappings_def completed_def)

lemma completed_write_mappings:
  "completed (read_mappings (write_mappings E (add_combination d v (read_mappings s q)) q s) p) d' =
     (if p \<noteq> q then completed (read_mappings s p) d'
      else if file_write_ok E (length (trace s)) q
      then (if d' = d then insert v (completed (read_mappings s p) d')
            else completed (read_mappings s p) d')
      else if file_write_truncates E (length (trace s)) q then {}
      else completed (read_mappings s p) d')"
proof -
  have e: "\<And>x. completed [] x = {}" by (simp add: completed_def)
  show ?thesis
    by (simp add: write_mappings_def Let_def read_mappings_def completed_add_combination e)
qed

lemma write_mappings_frame:
  "trace (write_mappings E m q s) = trace s @ [WriteCall q m (file_write_ok E (length (trace s)) q)]"
  "convert_cache (write_mappings E m q s) = convert_cache s"
  "chunk_cache (write_mappings E m q s) = chunk_cache s"
  "graph_nodes (write_mappings E m q s) = graph_nodes s"
  "graph_edges (write_mappings E m q s) = graph_edges s"
  by (simp_all add: write_mappings_def Let_def)

lemma completed_update_mappings:
  "completed (read_mappings (update_mappings E P d v s) p) d' =
     (if p = global_mappings_path P \<or> p = user_mappings_path P
      then (if file_write_ok E (if p = global_mappings_path P then length (trace s)
                                else Suc (length (trace s))) p
            then (if d' = d then insert v (completed (read_mappings s p) d')
                  else completed (read_mappings s p) d')
            else if file_write_truncates E (if p = global_mappings_path P then length (trace s)
                                            else Suc (length (trace s))) p
            then {}
            else completed (read_mappings s p) d')
      else completed (read_mappings s p) d')"
  using mappings_paths_distinct [of P]
  by (auto simp: update_mappings_def Let_def completed_write_mappings write_mappings_frame)

lemma read_mappings_cong: "files s = files s' \<Longrightarrow> read_mappings s p = read_mappings s' p"
  by (simp add: read_mappings_def)

text \<open>
  The recorded sets of a ledger file grow as long as no write of that file fails after
  the file was opened.
\<close>

lemma update_mappings_mono:
  "files s0 = files s \<Longrightarrow> \<forall>t. file_write_ok E t p \<or> \<not> file_write_truncates E t p \<Longrightarrow>
   completed (read_mappings s0 p) d' \<subseteq> completed (read_mappings (update_mappings E P d v s) p) d'"
  by (auto simp: completed_update_mappings read_mappings_cong [of s0 s])

lemma process_variant_mono:
  assumes nt: "\<forall>t. file_write_ok E t p \<or> \<not> file_write_truncates E t p"
  shows "completed (read_mappings s p) d' \<subseteq>
   completed (read_mappings (snd (process_variant E P pp d c s)) p) d'"
proof -
  have a: "\<And>s1. files s1 = files s \<Longrightarrow>
     completed (read_mappings s p) d' \<subseteq> completed (read_mappings s1 p) d'"
    by (simp add: read_mappings_def)
  have b: "\<And>s1. files s1 = files s \<Longrightarrow>
     completed (read_mappings s p) d' \<subseteq>
     completed (read_mappings (update_mappings E P d (db_combination_of c) s1) p) d'"
    using nt by (intro update_mappings_mono) simp_all
  show ?thesis
    by (simp add: process_variant_def case_prod_unfold a b conversion_step_files
          chunking_step_files chunk_loop_files
        split: sum.splits option.splits)
qed

lemma process_variants_mono:
  assumes nt: "\<forall>t. file_write_ok E t p \<or> \<not> file_write_truncates E t p"
  shows "completed (read_mappings s p) d' \<subseteq>
   completed (read_mappings (snd (process_variants E P pp d cs s)) p) d'"
proof (induction cs arbitrary: s)
  case Nil
  show ?case by simp
next
  case (Cons c cs)
  show ?case
  proof (cases "fst (process_variant E P pp d c s)")
    case None
    then have "snd (process_variants E P pp d (c # cs) s) =
               snd (process_variants E P pp d cs (snd (process_variant E P pp d c s)))"
      by (simp add: case_prod_unfold)
    with Cons.IH [of "snd (process_variant E P pp d c s)"]
      process_variant_mono [OF nt, of s d' P pp d c]
    show ?thesis by auto
  next
    case (Some e)
    then have "snd (process_variants E P pp d (c # cs) s) = snd (process_variant E P pp d c s)"
      by (simp add: case_prod_unfold)
    with process_variant_mono [OF nt, of s d' P pp d c] show ?thesis by simp
  qed
qed

lemma process_mono:
  assumes nt: "\<forall>t. file_write_ok E t p \<or> \<not> file_write_truncates E t p"
  shows "completed (read_mappings s p) d' \<subseteq>
   completed (read_mappings (snd (process E P pp cs s)) p) d'"
proof -
  let ?s = "s\<lparr>convert_cache := [], chunk_cache := []\<rparr>"
  show ?thesis
  proof (cases "metadata_file_ok E \<and> fst (lighthouse_and_commit E pp ?s) \<noteq> []")
    case False
    then show ?thesis
      by (auto simp: process_def Let_def case_prod_unfold lighthouse_and_commit_frame
            read_mappings_def)
  next
    case True
    let ?s3 = "create_relationship E (fst (lighthouse_and_commit E pp ?s)) (author_cid P) ''AUTHORED_BY''
                 (add_ipfs_node E (fst (lighthouse_and_commit E pp ?s)) (snd (lighthouse_and_commit E pp ?s)))"
    have f: "files ?s3 = files s"
      by (simp add: create_relationship_frame add_ipfs_node_frame lighthouse_and_commit_frame)
    then have r: "read_mappings ?s3 p = read_mappings s p"
      by (simp only: read_mappings_def)
    have "snd (process E P pp cs s) =
          snd (process_variants E P pp (fst (lighthouse_and_commit E pp ?s)) cs ?s3)"
      using True by (simp add: process_def Let_def case_prod_unfold)
    with process_variants_mono [OF nt, of ?s3 d' P pp "fst (lighthouse_and_commit E pp ?s)" cs] r
    show ?thesis by simp
  qed
qed

lemma process_all_mono:
  "\<forall>call \<in> set calls. \<forall>t. file_write_ok (fst call) t p \<or> \<not> file_write_truncates (fst call) t p \<Longrightarrow>
   completed (read_mappings s p) d' \<subseteq> completed (read_mappings (process_all calls s) p) d'"
proof (induction calls arbitrary: s)
  case Nil
  show ?case by simp
next
  case (Cons call calls)
  obtain E P pp cs where call: "call = (E, P, pp, cs)" by (cases call) auto
  from Cons.prems have nt: "\<forall>t. file_write_ok E t p \<or> \<not> file_write_truncates E t p"
    and rest: "\<forall>call \<in> set calls. \<forall>t. file_write_ok (fst call) t p \<or> \<not> file_write_truncates (fst call) t p"
    by (simp_all add: call)
  from Cons.IH [OF rest, of "snd (process E P pp cs s)"] process_mono [OF nt, of s d' P pp cs]
  show ?case unfolding call by auto
qed

lemma trace_update_mappings:
  "trace (update_mappings E P d v s) = trace s @
     [WriteCall (global_mappings_path P)
        (add_combination d v (read_mappings s (global_mappings_path P)))
        (file_write_ok E (length (trace s)) (global_mappings_path P)),
      WriteCall (user_mappings_path P)
        (add_combination d v (read_mappings s (user_mappings_path P)))
        (file_write_ok E (Suc (length (trace s))) (user_mappings_path P))]"
  using mappings_paths_distinct [of P]
  by (simp add: update_mappings_def Let_def write_mappings_def read_mappings_def)

lemma update_mappings_frame:
  "convert_cache (update_mappings E P d v s) = convert_cache s"
  "chunk_cache (update_mappings E P d v s) = chunk_cache s"
  "graph_nodes (update_mappings E P d v s) = graph_nodes s"
  "graph_edges (update_mappings E P d v s) = graph_edges s"
  by (simp_all add: update_mappings_def Let_def write_mappings_frame)

lemma files_update_mappings:
  "files (update_mappings E P d v s) p =
     (if p = global_mappings_path P \<or> p = user_mappings_path P
      then (if file_write_ok E (if p = global_mappings_path P then length (trace s)
                                else Suc (length (trace s))) p
            then Json (add_combination d v (read_mappings s p))
            else if file_write_truncates E (if p = global_mappings_path P then length (trace s)
                                            else Suc (length (trace s))) p
            then Unreadable
            else files s p)
      else files s p)"
  using mappings_paths_distinct [of P]
  by (auto simp: update_mappings_def Let_def write_mappings_def read_mappings_def)

lemma process_variant_skip:
  "is_complete (read_mappings s (global_mappings_path P)) d (db_combination_of c) \<Longrightarrow>
   process_variant E P pdf d c s = (None, update_mappings E P d (db_combination_of c) s)"
  by (simp add: process_variant_def)

lemma is_complete_Json:
  "is_complete (read_mappings s p) d v \<Longrightarrow> files s p = Json (read_mappings s p)"
  by (cases "files s p") (simp_all add: read_mappings_def is_complete_def)



text \<open>Equations without local bindings, for running the model on given inputs.\<close>

lemma lighthouse_and_commit_eq:
  "lighthouse_and_commit E x s =
     (upload_result E (length (trace s)) x,
      s\<lparr>trace := trace s @ [UploadCall x (upload_result E (length (trace s)) x)]\<rparr>)"
  by (simp add: lighthouse_and_commit_def Let_def)

lemma add_ipfs_node_eq:
  "add_ipfs_node E c s =
     s\<lparr>graph_nodes := (if graph_write_ok E (length (trace s)) \<and> c \<notin> set (graph_nodes s)
                         then graph_nodes s @ [c] else graph_nodes s),
       trace := trace s @ [AddNodeCall c (graph_write_ok E (length (trace s)))]\<rparr>"
  by (simp add: add_ipfs_node_def Let_def)

lemma create_relationship_eq:
  "create_relationship E a b rel s =
     s\<lparr>graph_edges := (if graph_write_ok E (length (trace s)) \<and> (a, b, rel) \<notin> set (graph_edges s)
                         then graph_edges s @ [(a, b, rel)] else graph_edges s),
       trace := trace s @ [RelationshipCall a b rel (graph_write_ok E (length (trace s)))]\<rparr>"
  by (simp add: create_relationship_def Let_def)

lemma write_mappings_eq:
  "write_mappings E m q s =
     s\<lparr>files := (if file_write_ok E (length (trace s)) q then (files s)(q := Json m)
                  else if file_write_truncates E (length (trace s)) q then (files s)(q := Unreadable)
                  else files s),
       trace := trace s @ [WriteCall q m (file_write_ok E (length (trace s)) q)]\<rparr>"
  by (simp add: write_mappings_def Let_def)

lemma update_mappings_eq:
  "update_mappings E P d v s =
     write_mappings E
       (add_combination d v
          (read_mappings
             (write_mappings E (add_combination d v (read_mappings s (global_mappings_path P)))
                (global_mappings_path P) s)
             (user_mappings_path P)))
       (user_mappings_path P)
       (write_mappings E (add_combination d v (read_mappings s (global_mappings_path P)))
          (global_mappings_path P) s)"
  by (simp add: update_mappings_def Let_def)

lemma add_combination_eq:
  "add_combination d v m =
     (case map_of m d of
        None \<Rightarrow> AList.update d [v] (AList.update d [] m)
      | Some vs \<Rightarrow> if v \<in> set vs then m else AList.update d (vs @ [v]) m)"
  by (simp add: add_combination_def Let_def update_conv' split: option.splits)

lemmas run_simps =
  process_def process_variant_def conversion_step_def new_conversion_def existing_conversion_def
  converted_text_for_def chunking_step_def chunk_upload_def embedding_upload_def
  lighthouse_and_commit_eq add_ipfs_node_eq create_relationship_eq
  get_converted_markdown_cid_def query_ipfs_content_def update_mappings_eq write_mappings_eq
  read_mappings_def add_combination_eq is_complete_def truthy_def db_combination_of_def
  chunk_cache_key_def global_mappings_path_def user_mappings_path_def user_temp_dir_def

lemma alice_simps:
  "temp_dir alice = [''temp'']" "user_email alice = ''alice@example.org''"
  "author_cid alice = ''QmAuthor''"
  by (simp_all add: alice_def)


lemma env_disk_full_simps:
  "upload_result env_disk_full t x = ''Qm-'' @ x"
  "graph_write_ok env_disk_full t = True"
  "file_write_ok env_disk_full t q = False"
  "file_write_truncates env_disk_full t q = True"
  "metadata_file_ok env_disk_full = True"
  by (simp_all add: env_disk_full_def env_ok_def)


lemma existing_conversion_cache:
  "truthy (fst (existing_conversion E d conv s)) \<Longrightarrow>
   map_of (convert_cache (snd (existing_conversion E d conv s))) conv \<noteq> None"
  by (auto simp: existing_conversion_def truthy_def update_conv' split: option.splits if_splits)





























section \<open>Theorems: reading a ledger\<close>

text \<open>
  Claim C8. Reading a ledger file that is missing, or that cannot be read or parsed,
  gives the empty dictionary and raises nothing; a completeness check on that result
  answers no for every document and every combination.
\<close>

theorem read_mappings_missing_or_unreadable:
  "files s p = Missing \<or> files s p = Unreadable \<Longrightarrow>
   read_mappings s p = [] \<and> \<not> is_complete (read_mappings s p) d v"
  by (auto simp: read_mappings_def is_complete_def)

theorem read_mappings_missing_or_unreadable_witness:
  "files (state0\<lparr>files := (\<lambda>p. Unreadable)\<rparr>) [''temp'', ''mappings.json''] = Unreadable
   \<and> read_mappings (state0\<lparr>files := (\<lambda>p. Unreadable)\<rparr>) [''temp'', ''mappings.json''] = []
   \<and> \<not> is_complete (read_mappings (state0\<lparr>files := (\<lambda>p. Unreadable)\<rparr>) [''temp'', ''mappings.json''])
         ''QmDoc'' ''marker_paragraph_bge''"
  using read_mappings_missing_or_unreadable
    [of "state0\<lparr>files := (\<lambda>p. Unreadable)\<rparr>" "[''temp'', ''mappings.json'']" "''QmDoc''" "''marker_paragraph_bge''"]
  by auto

section \<open>Theorems: recording a completed combination\<close>

text \<open>
  Claim C5, as amended. \<open>__update_mappings\<close> runs two separate read-modify-write
  cycles on two distinct files, the global ledger first and the user's ledger second.
  Each cycle writes the dictionary it read with the combination added to the set of the
  document CID. A cycle whose write goes through leaves that dictionary in its file. A
  cycle whose write fails before the file is opened leaves its file as it was. A cycle
  whose write fails after the file was opened leaves a file that cannot be read, which
  counts as the empty dictionary. What one cycle does to its file does not depend on the
  other cycle.
\<close>

theorem update_mappings_two_cycles:
  "global_mappings_path P \<noteq> user_mappings_path P
   \<and> trace (update_mappings E P d v s) = trace s @
       [WriteCall (global_mappings_path P)
          (add_combination d v (read_mappings s (global_mappings_path P)))
          (file_write_ok E (length (trace s)) (global_mappings_path P)),
        WriteCall (user_mappings_path P)
          (add_combination d v (read_mappings s (user_mappings_path P)))
          (file_write_ok E (Suc (length (trace s))) (user_mappings_path P))]
   \<and> completed (add_combination d v (read_mappings s (global_mappings_path P))) d
       = insert v (completed (read_mappings s (global_mappings_path P)) d)
   \<and> completed (add_combination d v (read_mappings s (user_mappings_path P))) d
       = insert v (completed (read_mappings s (user_mappings_path P)) d)
   \<and> files (update_mappings E P d v s) (global_mappings_path P) =
       (if file_write_ok E (length (trace s)) (global_mappings_path P)
        then Json (add_combination d v (read_mappings s (global_mappings_path P)))
        else if file_write_truncates E (length (trace s)) (global_mappings_path P)
        then Unreadable
        else files s (global_mappings_path P))
   \<and> files (update_mappings E P d v s) (user_mappings_path P) =
       (if file_write_ok E (Suc (length (trace s))) (user_mappings_path P)
        then Json (add_combination d v (read_mappings s (user_mappings_path P)))
        else if file_write_truncates E (Suc (length (trace s))) (user_mappings_path P)
        then Unreadable
        else files s (user_mappings_path P))
   \<and> read_mappings (update_mappings E P d v s) (global_mappings_path P) =
       (if file_write_ok E (length (trace s)) (global_mappings_path P)
        then add_combination d v (read_mappings s (global_mappings_path P))
        else if file_write_truncates E (length (trace s)) (global_mappings_path P)
        then []
        else read_mappings s (global_mappings_path P))
   \<and> read_mappings (update_mappings E P d v s) (user_mappings_path P) =
       (if file_write_ok E (Suc (length (trace s))) (user_mappings_path P)
        then add_combination d v (read_mappings s (user_mappings_path P))
        else if file_write_truncates E (Suc (length (trace s))) (user_mappings_path P)
        then []
        else read_mappings s (user_mappings_path P))"
  using mappings_paths_distinct [of P] mappings_paths_distinct [of P, symmetric]
  by (simp add: trace_update_mappings files_update_mappings completed_add_combination
        read_mappings_def)

text \<open>
  With a global ledger that cannot be opened for writing and a user ledger that can, the
  combination ends up in the user's file alone. On a full disk both files are left
  unreadable.
\<close>

theorem update_mappings_two_cycles_witness:
  "files (update_mappings env_global_readonly alice ''QmDoc'' ''marker_paragraph_bge'' state0)
      [''temp'', ''mappings.json''] = Missing
   \<and> files (update_mappings env_global_readonly alice ''QmDoc'' ''marker_paragraph_bge'' state0)
      [''temp'', ''alice@example.org'', ''mappings.json'']
       = Json [(''QmDoc'', [''marker_paragraph_bge''])]
   \<and> files (update_mappings env_disk_full alice ''QmDoc'' ''marker_paragraph_bge'' state_done)
      [''temp'', ''mappings.json''] = Unreadable
   \<and> files (update_mappings env_disk_full alice ''QmDoc'' ''marker_paragraph_bge'' state_done)
      [''temp'', ''alice@example.org'', ''mappings.json''] = Unreadable"
  using update_mappings_two_cycles
    [of alice env_global_readonly "''QmDoc''" "''marker_paragraph_bge''" state0]
    update_mappings_two_cycles
    [of alice env_disk_full "''QmDoc''" "''marker_paragraph_bge''" state_done]
  by (simp add: env_global_readonly_def env_disk_full_def env_ok_def alice_def state0_def
        state_done_def global_mappings_path_def
        user_mappings_path_def user_temp_dir_def read_mappings_def add_combination_def)

text \<open>
  The claim as stated, that the combination is added in both scopes, fails when the
  global ledger cannot be written: the global scope does not hold it afterwards.
\<close>

theorem update_mappings_counterexample:
  "\<not> is_complete
       (read_mappings (update_mappings env_global_readonly alice ''QmDoc'' ''marker_paragraph_bge'' state0)
          (global_mappings_path alice))
       ''QmDoc'' ''marker_paragraph_bge''"
  by (simp add: files_update_mappings read_mappings_def is_complete_def
        env_global_readonly_def env_ok_def alice_def state0_def global_mappings_path_def
        user_mappings_path_def user_temp_dir_def)

section \<open>Theorems: a combination that is already complete globally\<close>

text \<open>
  Claim C1, as amended. When the global ledger already records the combination for the
  document CID, the loop body returns without an exception and calls nothing but the two
  ledger writes: no converter, chunker or embedder, no upload and no graph write; caches
  and graph are unchanged. The global ledger file is rewritten with the dictionary it
  held: it is as before when that write goes through or fails before the file is opened,
  and it is left unreadable when the write fails after the file was opened. So the
  combination stays complete in the global scope exactly when the rewrite did not fail
  after opening the file. The user's ledger gets the combination added when its write
  goes through, and then the combination is complete in the user's scope too; when that
  write fails before the file is opened the user's file is unchanged, and when it
  fails after, the user's file is left unreadable and records nothing.
\<close>

theorem skip_when_globally_complete:
  assumes recorded: "is_complete (read_mappings s (global_mappings_path P)) d (db_combination_of c)"
  shows "fst (process_variant E P pdf d c s) = None
    \<and> trace (snd (process_variant E P pdf d c s)) = trace s @
        [WriteCall (global_mappings_path P) (read_mappings s (global_mappings_path P))
           (file_write_ok E (length (trace s)) (global_mappings_path P)),
         WriteCall (user_mappings_path P)
           (add_combination d (db_combination_of c) (read_mappings s (user_mappings_path P)))
           (file_write_ok E (Suc (length (trace s))) (user_mappings_path P))]
    \<and> convert_cache (snd (process_variant E P pdf d c s)) = convert_cache s
    \<and> chunk_cache (snd (process_variant E P pdf d c s)) = chunk_cache s
    \<and> graph_nodes (snd (process_variant E P pdf d c s)) = graph_nodes s
    \<and> graph_edges (snd (process_variant E P pdf d c s)) = graph_edges s
    \<and> files (snd (process_variant E P pdf d c s)) (global_mappings_path P) =
        (if file_write_ok E (length (trace s)) (global_mappings_path P)
         then files s (global_mappings_path P)
         else if file_write_truncates E (length (trace s)) (global_mappings_path P)
         then Unreadable
         else files s (global_mappings_path P))
    \<and> is_complete (read_mappings (snd (process_variant E P pdf d c s)) (global_mappings_path P))
         d (db_combination_of c)
        = (file_write_ok E (length (trace s)) (global_mappings_path P)
           \<or> \<not> file_write_truncates E (length (trace s)) (global_mappings_path P))
    \<and> files (snd (process_variant E P pdf d c s)) (user_mappings_path P) =
        (if file_write_ok E (Suc (length (trace s))) (user_mappings_path P)
         then Json (add_combination d (db_combination_of c) (read_mappings s (user_mappings_path P)))
         else if file_write_truncates E (Suc (length (trace s))) (user_mappings_path P)
         then Unreadable
         else files s (user_mappings_path P))
    \<and> is_complete (read_mappings (snd (process_variant E P pdf d c s)) (user_mappings_path P))
         d (db_combination_of c)
        = (if file_write_ok E (Suc (length (trace s))) (user_mappings_path P) then True
           else if file_write_truncates E (Suc (length (trace s))) (user_mappings_path P) then False
           else is_complete (read_mappings s (user_mappings_path P)) d (db_combination_of c))"
proof -
  let ?v = "db_combination_of c"
  let ?s' = "update_mappings E P d ?v s"
  let ?g = "global_mappings_path P"
  let ?u = "user_mappings_path P"
  have eq: "process_variant E P pdf d c s = (None, ?s')"
    using recorded by (rule process_variant_skip)
  have same: "add_combination d ?v (read_mappings s ?g) = read_mappings s ?g"
    using recorded by (rule add_combination_idem)
  have g: "files ?s' ?g =
        (if file_write_ok E (length (trace s)) ?g then files s ?g
         else if file_write_truncates E (length (trace s)) ?g then Unreadable
         else files s ?g)"
    using is_complete_Json [OF recorded]
    by (simp add: files_update_mappings same)
  have g': "is_complete (read_mappings ?s' ?g) d ?v
        = (file_write_ok E (length (trace s)) ?g \<or> \<not> file_write_truncates E (length (trace s)) ?g)"
    using recorded
    by (simp add: is_complete_completed completed_update_mappings)
  have u: "files ?s' ?u =
        (if file_write_ok E (Suc (length (trace s))) ?u
         then Json (add_combination d ?v (read_mappings s ?u))
         else if file_write_truncates E (Suc (length (trace s))) ?u then Unreadable
         else files s ?u)"
    using mappings_paths_distinct [of P] mappings_paths_distinct [of P, symmetric]
    by (simp add: files_update_mappings)
  have u': "is_complete (read_mappings ?s' ?u) d ?v
        = (if file_write_ok E (Suc (length (trace s))) ?u then True
           else if file_write_truncates E (Suc (length (trace s))) ?u then False
           else is_complete (read_mappings s ?u) d ?v)"
    using mappings_paths_distinct [of P] mappings_paths_distinct [of P, symmetric]
    by (simp add: is_complete_completed completed_update_mappings)
  show ?thesis
    unfolding eq fst_conv snd_conv
    using g g' u u' by (simp add: trace_update_mappings same update_mappings_frame)
qed

theorem skip_when_globally_complete_witness:
  "is_complete (read_mappings state_done (global_mappings_path alice)) ''QmDoc''
     (db_combination_of variant1)
   \<and> snd (process_variant env_ok alice ''doc.pdf'' ''QmDoc'' variant1 state_done) =
       state_done\<lparr>files := (files state_done)
                     ([''temp'', ''alice@example.org'', ''mappings.json''] :=
                        Json [(''QmDoc'', [''marker_paragraph_bge''])]),
                  trace := [WriteCall [''temp'', ''mappings.json'']
                              [(''QmDoc'', [''marker_paragraph_bge''])] True,
                            WriteCall [''temp'', ''alice@example.org'', ''mappings.json'']
                              [(''QmDoc'', [''marker_paragraph_bge''])] True]\<rparr>"
proof -
  have h: "is_complete (read_mappings state_done (global_mappings_path alice)) ''QmDoc''
     (db_combination_of variant1)"
    by (simp add: state_done_def state0_def alice_def variant1_def global_mappings_path_def
          read_mappings_def is_complete_def db_combination_of_def)
  have "process_variant env_ok alice ''doc.pdf'' ''QmDoc'' variant1 state_done
        = (None, update_mappings env_ok alice ''QmDoc'' (db_combination_of variant1) state_done)"
    using skip_when_globally_complete [OF h, of env_ok "''doc.pdf''"]
    by (simp add: process_variant_def h)
  then show ?thesis
    using h
    by (simp add: update_mappings_def write_mappings_def Let_def state_done_def state0_def
          alice_def variant1_def global_mappings_path_def user_mappings_path_def user_temp_dir_def
          read_mappings_def add_combination_def db_combination_of_def env_ok_def fun_upd_twist)
qed

text \<open>
  The claim as stated, that the combination is afterwards complete in both scopes,
  fails in the user's scope when the user's ledger file cannot be opened for writing,
  and in both scopes when the writes fail after the files were opened.
\<close>

theorem skip_when_globally_complete_counterexample:
  "is_complete (read_mappings state_done (global_mappings_path alice)) ''QmDoc''
     (db_combination_of variant1)
   \<and> \<not> is_complete
         (read_mappings (snd (process_variant env_user_readonly alice ''doc.pdf'' ''QmDoc'' variant1
                                state_done))
            (user_mappings_path alice))
         ''QmDoc'' (db_combination_of variant1)
   \<and> \<not> is_complete
         (read_mappings (snd (process_variant env_disk_full alice ''doc.pdf'' ''QmDoc'' variant1
                                state_done))
            (global_mappings_path alice))
         ''QmDoc'' (db_combination_of variant1)
   \<and> \<not> is_complete
         (read_mappings (snd (process_variant env_disk_full alice ''doc.pdf'' ''QmDoc'' variant1
                                state_done))
            (user_mappings_path alice))
         ''QmDoc'' (db_combination_of variant1)"
proof -
  have h: "is_complete (read_mappings state_done (global_mappings_path alice)) ''QmDoc''
     (db_combination_of variant1)"
    by (simp add: state_done_def state0_def alice_def variant1_def global_mappings_path_def
          read_mappings_def is_complete_def db_combination_of_def)
  show ?thesis
    unfolding process_variant_skip [OF h, of env_user_readonly "''doc.pdf''"]
      process_variant_skip [OF h, of env_disk_full "''doc.pdf''"] snd_conv
    using h
    by (simp add: files_update_mappings read_mappings_def
          is_complete_def env_user_readonly_def env_disk_full_def env_ok_def alice_def
          state_done_def state0_def
          global_mappings_path_def user_mappings_path_def user_temp_dir_def)
qed

section \<open>Theorems: a failed upload of the document\<close>

text \<open>
  Claim C4. When the upload of the raw document yields the empty string, \<open>process\<close>
  returns at once: the only call made is that upload, the caches are empty, no node and
  no edge is added to the graph, no configuration is processed and no ledger file is
  written.
\<close>

theorem process_stops_when_upload_fails:
  assumes "metadata_file_ok E" and "upload_result E (length (trace s)) pdf_path = []"
  shows "process E P pdf_path databases s =
           (None, s\<lparr>convert_cache := [], chunk_cache := [],
                    trace := trace s @ [UploadCall pdf_path []]\<rparr>)
    \<and> graph_nodes (snd (process E P pdf_path databases s)) = graph_nodes s
    \<and> graph_edges (snd (process E P pdf_path databases s)) = graph_edges s
    \<and> files (snd (process E P pdf_path databases s)) = files s"
  using assms by (simp add: process_def lighthouse_and_commit_def Let_def)

theorem process_stops_when_upload_fails_witness:
  "metadata_file_ok env_upload_down
   \<and> upload_result env_upload_down (length (trace state0)) ''doc.pdf'' = []
   \<and> process env_upload_down alice ''doc.pdf'' [variant1] state0
       = (None, state0\<lparr>trace := [UploadCall ''doc.pdf'' []]\<rparr>)"
  using process_stops_when_upload_fails
    [of env_upload_down state0 "''doc.pdf''" alice "[variant1]"]
  by (simp add: env_upload_down_def env_ok_def state0_def)

section \<open>Theorems: when the ledgers only grow\<close>

text \<open>
  Claim C6, as amended. For every ledger file and every document CID, the set of
  recorded combinations does not shrink as long as no write of that file fails after
  the file was opened: not over one call of \<open>process\<close>, whatever its outcome, and not
  over any sequence of such calls by any users. One \<open>__update_mappings\<close> leaves the set
  of a document in a file as it was, or adds exactly the new combination to it, or, when
  a write of that file fails after the file was opened, leaves the file unreadable, so
  that the set is empty.
\<close>

theorem mappings_never_shrink:
  "((\<forall>call \<in> set calls. \<forall>t.
        file_write_ok (fst call) t p \<or> \<not> file_write_truncates (fst call) t p) \<longrightarrow>
      completed (read_mappings s p) d \<subseteq> completed (read_mappings (process_all calls s) p) d)
   \<and> ((\<forall>t. file_write_ok E t p \<or> \<not> file_write_truncates E t p) \<longrightarrow>
      completed (read_mappings s p) d
        \<subseteq> completed (read_mappings (snd (process E P pdf_path databases s)) p) d)
   \<and> (completed (read_mappings (update_mappings E P pdf_cid v s) p) d
         = completed (read_mappings s p) d
       \<or> completed (read_mappings (update_mappings E P pdf_cid v s) p) d
         = insert v (completed (read_mappings s p) d)
       \<or> completed (read_mappings (update_mappings E P pdf_cid v s) p) d = {}
         \<and> files (update_mappings E P pdf_cid v s) p = Unreadable
         \<and> (\<exists>t. \<not> file_write_ok E t p \<and> file_write_truncates E t p))"
proof -
  have a: "(\<forall>call \<in> set calls. \<forall>t.
        file_write_ok (fst call) t p \<or> \<not> file_write_truncates (fst call) t p) \<longrightarrow>
      completed (read_mappings s p) d \<subseteq> completed (read_mappings (process_all calls s) p) d"
    using process_all_mono [of calls p s d] by blast
  have b: "(\<forall>t. file_write_ok E t p \<or> \<not> file_write_truncates E t p) \<longrightarrow>
      completed (read_mappings s p) d
        \<subseteq> completed (read_mappings (snd (process E P pdf_path databases s)) p) d"
    using process_mono [of E p s d P pdf_path databases] by blast
  have c: "completed (read_mappings (update_mappings E P pdf_cid v s) p) d
         = completed (read_mappings s p) d
       \<or> completed (read_mappings (update_mappings E P pdf_cid v s) p) d
         = insert v (completed (read_mappings s p) d)
       \<or> completed (read_mappings (update_mappings E P pdf_cid v s) p) d = {}
         \<and> files (update_mappings E P pdf_cid v s) p = Unreadable
         \<and> (\<exists>t. \<not> file_write_ok E t p \<and> file_write_truncates E t p)"
    by (auto simp: completed_update_mappings files_update_mappings)
  from a b c show ?thesis by blast
qed

text \<open>
  Two calls with surroundings in which every write goes through: what the global ledger
  records for \<open>QmDoc\<close> is still there afterwards.
\<close>

theorem mappings_never_shrink_witness:
  "completed (read_mappings state_done [''temp'', ''mappings.json'']) ''QmDoc''
     \<subseteq> completed (read_mappings
          (process_all [(env_ok, alice, ''doc.pdf'', [variant1]),
                        (env_upload_down, alice, ''other.pdf'', [variant1])] state_done)
          [''temp'', ''mappings.json'']) ''QmDoc''
   \<and> completed (read_mappings state_done [''temp'', ''mappings.json'']) ''QmDoc''
        = {''marker_paragraph_bge''}"
proof -
  have h: "\<forall>call \<in> set [(env_ok, alice, ''doc.pdf'', [variant1]),
                   (env_upload_down, alice, ''other.pdf'', [variant1])].
      \<forall>t. file_write_ok (fst call) t [''temp'', ''mappings.json'']
          \<or> \<not> file_write_truncates (fst call) t [''temp'', ''mappings.json'']"
    by (simp add: env_ok_def env_upload_down_def)
  have v: "completed (read_mappings state_done [''temp'', ''mappings.json'']) ''QmDoc''
        = {''marker_paragraph_bge''}"
    by (simp add: state_done_def state0_def read_mappings_def completed_def)
  from mappings_never_shrink
    [of "[(env_ok, alice, ''doc.pdf'', [variant1]), (env_upload_down, alice, ''other.pdf'', [variant1])]"
        "[''temp'', ''mappings.json'']" state_done "''QmDoc''"] h
  have "completed (read_mappings state_done [''temp'', ''mappings.json'']) ''QmDoc''
     \<subseteq> completed (read_mappings
          (process_all [(env_ok, alice, ''doc.pdf'', [variant1]),
                        (env_upload_down, alice, ''other.pdf'', [variant1])] state_done)
          [''temp'', ''mappings.json'']) ''QmDoc''"
    by blast
  with v show ?thesis by blast
qed

text \<open>
  The claim as stated, that the set never shrinks over any sequence of operations,
  fails when a write of the ledger fails after the file was opened. The global ledger
  records \<open>marker_paragraph_bge\<close> for the document \<open>Qm-doc.pdf\<close>; the document is processed
  again with that configuration on a full disk; the configuration is skipped as complete,
  \<open>__update_mappings\<close> rewrites the global ledger, the write fails after \<open>open\<close> emptied
  the file, and the ledger records nothing for the document any more.
\<close>

theorem mappings_shrink_counterexample:
  "completed (read_mappings state_doc_done [''temp'', ''mappings.json'']) ''Qm-doc.pdf''
     = {''marker_paragraph_bge''}
   \<and> fst (process env_disk_full alice ''doc.pdf'' [variant1] state_doc_done) = None
   \<and> trace (process_all [(env_disk_full, alice, ''doc.pdf'', [variant1])] state_doc_done) =
       [UploadCall ''doc.pdf'' ''Qm-doc.pdf'', AddNodeCall ''Qm-doc.pdf'' True,
        RelationshipCall ''Qm-doc.pdf'' ''QmAuthor'' ''AUTHORED_BY'' True,
        WriteCall [''temp'', ''mappings.json'']
          [(''Qm-doc.pdf'', [''marker_paragraph_bge''])] False,
        WriteCall [''temp'', ''alice@example.org'', ''mappings.json'']
          [(''Qm-doc.pdf'', [''marker_paragraph_bge''])] False]
   \<and> files (process_all [(env_disk_full, alice, ''doc.pdf'', [variant1])] state_doc_done)
        [''temp'', ''mappings.json''] = Unreadable
   \<and> completed (read_mappings
        (process_all [(env_disk_full, alice, ''doc.pdf'', [variant1])] state_doc_done)
        [''temp'', ''mappings.json'']) ''Qm-doc.pdf'' = {}"
  by (simp add: run_simps env_disk_full_simps alice_simps state_doc_done_def state0_def
        variant1_def completed_def
        cong: prod.case_cong_weak sum.case_cong_weak option.case_cong_weak)

section \<open>Theorems: the key of the chunk cache\<close>




section \<open>Theorems: the conversion step\<close>




section \<open>Theorems: completion is recorded after the chunk loop\<close>




end
